theory Spec2Isabelle
  imports Complex_Main "HOL-Library.Sublist"
begin

section \<open>Python values\<close>

text \<open>
  A Python \<open>str\<close> is a sequence of Unicode code points and \<open>len\<close> counts code points,
  so a string is a list of code points here. The ASCII literals of the source are written
  as HOL string literals and converted by \<open>lit\<close>.
\<close>

type_synonym pystr = "nat list"

definition lit :: "string \<Rightarrow> pystr" where
  "lit s = map of_char s"

text \<open>\<open>str.isspace\<close> on one code point, which is what \<open>str.strip()\<close> removes.\<close>

definition is_space :: "nat \<Rightarrow> bool" where
  "is_space c \<longleftrightarrow>
     (9 \<le> c \<and> c \<le> 13) \<or> (28 \<le> c \<and> c \<le> 32) \<or> c = 133 \<or> c = 160 \<or> c = 5760 \<or>
     (8192 \<le> c \<and> c \<le> 8202) \<or> c = 8232 \<or> c = 8233 \<or> c = 8239 \<or> c = 8287 \<or> c = 12288"

definition strip :: "pystr \<Rightarrow> pystr" where
  "strip s = rev (dropWhile is_space (rev (dropWhile is_space s)))"

text \<open>
  \<open>s.replace(old, new)\<close>: every non-overlapping occurrence of \<open>old\<close>, found from the
  left, is replaced. With an empty \<open>old\<close> Python inserts \<open>new\<close> around every character.
\<close>

fun replace_py :: "'a list \<Rightarrow> 'a list \<Rightarrow> 'a list \<Rightarrow> 'a list" where
  "replace_py [] old new = (if old = [] then new else [])"
| "replace_py (c # cs) old new =
     (if old = [] then new @ c # replace_py cs old new
      else if prefix old (c # cs) then new @ replace_py (drop (length old) (c # cs)) old new
      else c # replace_py cs old new)"

text \<open>\<open>str(True)\<close> and \<open>str(False)\<close>, as an f-string formats a bool.\<close>

definition str_bool :: "bool \<Rightarrow> pystr" where
  "str_bool b = (if b then lit ''True'' else lit ''False'')"

text \<open>An exception, seen through \<open>str(e)\<close>.\<close>

datatype exn = Exception (str_exn: pystr)

text \<open>The values stored in the dictionaries that the handlers return.\<close>

datatype pyval = Str pystr | Bool bool

type_synonym pydict = "(string \<times> pyval) list"

section \<open>The external toolkit\<close>

text \<open>
  Tokenizer, model and tensors belong to the model toolkit. A tokenizer object carries
  the attributes the handlers read or write; models and encodings are opaque handles.
\<close>

record py_tokenizer =
  tok_handle :: nat
  pad_token :: "pystr option"
  eos_token :: "pystr option"
  eos_token_id :: "int option"

datatype py_model = Model nat

datatype encoding = Encoding nat

text \<open>
  The keyword arguments of \<open>model.generate\<close> (lines 118 to 125). The floats are only
  forwarded, never computed with.
\<close>

record generate_kwargs =
  max_new_tokens :: int
  min_new_tokens :: int
  temperature :: real
  do_sample :: bool
  top_p :: real
  top_k :: int
  pad_token_id :: "int option"
  repetition_penalty :: real

text \<open>
  What the toolkit answers during one request: each call either raises or returns.
  Sampling is random, so nothing is assumed about these functions.
\<close>

record world =
  cuda_is_available :: bool
  tokenizer_from_pretrained :: "pystr \<Rightarrow> exn + py_tokenizer"
  model_from_pretrained :: "pystr \<Rightarrow> exn + py_model"
  format_exc :: "exn \<Rightarrow> pystr"
  tokenize :: "py_tokenizer \<Rightarrow> pystr \<Rightarrow> exn + encoding"
  to_device :: "encoding \<Rightarrow> pystr \<Rightarrow> exn + encoding"
  generate :: "py_model \<Rightarrow> encoding \<Rightarrow> generate_kwargs \<Rightarrow> exn + int list list"
  decode :: "py_tokenizer \<Rightarrow> int list \<Rightarrow> exn + pystr"

text \<open>The observable effects of a handler, in the order they happen.\<close>

datatype event =
    Print pystr
  | FetchTokenizer pystr
  | FetchModel pystr
  | Tokenize pystr
  | ToDevice pystr
  | Generate generate_kwargs
  | Decode "int list"

section \<open>The service\<close>

record model_state =
  model :: "py_model option"
  tokenizer :: "py_tokenizer option"
  model_loaded :: bool

definition initial_state :: model_state where
  "initial_state = \<lparr>model = None, tokenizer = None, model_loaded = False\<rparr>"

definition MODEL_NAME :: pystr where
  "MODEL_NAME = lit ''KingNish/Qwen2.5-0.5b-Test-ft''"

record GenerateJokeRequest =
  topic :: pystr
  max_length :: int
  temperature :: real

record JokeResponse =
  joke :: pystr
  topic :: pystr

record HTTPException =
  status_code :: nat
  detail :: pystr

subsection \<open>\<open>read_root\<close>\<close>

definition read_root :: "model_state \<Rightarrow> pydict \<times> model_state" where
  "read_root s =
     ([(''message'', Str (lit ''Joke Generator API'')),
       (''model_loaded'', Bool (model_loaded s)),
       (''model_name'', Str MODEL_NAME)], s)"

subsection \<open>\<open>load_model\<close>\<close>

definition load_prints :: "world \<Rightarrow> event list" where
  "load_prints w =
     [Print (lit ''Loading model '' @ MODEL_NAME @ lit ''...''),
      Print (lit ''CUDA available: '' @ str_bool (cuda_is_available w))]"

text \<open>The \<open>except\<close> clause of \<open>load_model\<close> (lines 85 to 89).\<close>

definition load_failed :: "world \<Rightarrow> exn \<Rightarrow> HTTPException \<times> event list" where
  "load_failed w e =
     (\<lparr>status_code = 500, detail = lit ''Failed to load model: '' @ str_exn e\<rparr>,
      [Print (lit ''Error loading model: '' @ format_exc w e)])"

definition load_model ::
  "world \<Rightarrow> model_state \<Rightarrow> (HTTPException + pydict) \<times> model_state \<times> event list" where
  "load_model w s =
     (if model_loaded s then
        (Inr [(''message'', Str (lit ''Model already loaded'')),
              (''model_name'', Str MODEL_NAME)], s, [])
      else
        (case tokenizer_from_pretrained w MODEL_NAME of
           Inl e \<Rightarrow>
             (let (err, evs) = load_failed w e
              in (Inl err, s, load_prints w @ [FetchTokenizer MODEL_NAME] @ evs))
         | Inr tokenizer0 \<Rightarrow>
             (let tokenizer1 =
                    (if pad_token tokenizer0 = None
                     then tokenizer0\<lparr>pad_token := eos_token tokenizer0\<rparr>
                     else tokenizer0)
              in (case model_from_pretrained w MODEL_NAME of
                    Inl e \<Rightarrow>
                      (let (err, evs) = load_failed w e
                       in (Inl err, s,
                           load_prints w @ [FetchTokenizer MODEL_NAME, FetchModel MODEL_NAME] @ evs))
                  | Inr model1 \<Rightarrow>
                      (Inr [(''message'', Str (lit ''Model loaded successfully'')),
                            (''model_name'', Str MODEL_NAME),
                            (''device'',
                             Str (if cuda_is_available w then lit ''cuda'' else lit ''cpu''))],
                       s\<lparr>model := Some model1, tokenizer := Some tokenizer1, model_loaded := True\<rparr>,
                       load_prints w @ [FetchTokenizer MODEL_NAME, FetchModel MODEL_NAME,
                                        Print (lit ''Model loaded successfully!'')])))))"

subsection \<open>\<open>generate_joke\<close>\<close>

text \<open>Lines 102 to 105: the prompt. An empty \<open>str\<close> is falsy.\<close>

definition build_prompt :: "pystr \<Rightarrow> pystr" where
  "build_prompt t =
     (if t \<noteq> [] then lit ''Here's a funny joke about '' @ t @ lit '':\<newline>''
      else lit ''Here's a funny joke:\<newline>'')"

text \<open>Lines 118 to 125: the keyword arguments of the generation call.\<close>

definition generation_kwargs :: "GenerateJokeRequest \<Rightarrow> py_tokenizer \<Rightarrow> generate_kwargs" where
  "generation_kwargs request tok =
     \<lparr>max_new_tokens = min (max_length request) 50,
      min_new_tokens = 10,
      temperature = GenerateJokeRequest.temperature request,
      do_sample = True,
      top_p = 0.9,
      top_k = 50,
      pad_token_id = eos_token_id tok,
      repetition_penalty = 1.2\<rparr>"

definition fallback_joke :: pystr where
  "fallback_joke = lit ''Why don't scientists trust atoms? Because they make up everything!''"

text \<open>Line 132: the prompt is removed wherever it occurs, then whitespace is trimmed.\<close>

definition remove_prompt :: "pystr \<Rightarrow> pystr \<Rightarrow> pystr" where
  "remove_prompt generated_text prompt = strip (replace_py generated_text prompt [])"

text \<open>Lines 135 and 136: a slice \<open>joke[:500]\<close> is the first 500 code points.\<close>

definition truncate_joke :: "pystr \<Rightarrow> pystr" where
  "truncate_joke joke0 = (if length joke0 > 500 then take 500 joke0 @ lit ''...'' else joke0)"

text \<open>Lines 139 and 140.\<close>

definition default_if_short :: "pystr \<Rightarrow> pystr" where
  "default_if_short joke0 = (if length joke0 < 10 then fallback_joke else joke0)"

text \<open>Line 143: the \<open>joke\<close> argument of the response, with its guard against an empty string.\<close>

definition joke_or_default :: "pystr \<Rightarrow> pystr" where
  "joke_or_default joke0 = (if joke0 \<noteq> [] then joke0 else fallback_joke)"

text \<open>
  Lines 98 to 129: everything in the \<open>try\<close> block up to the decoded text. A handle that is
  \<open>None\<close> raises when it is used (\<open>TypeError\<close> on the call, \<open>AttributeError\<close> on the
  attribute), and \<open>outputs[0]\<close> raises \<open>IndexError\<close> on an empty batch. Code point 39
  is the apostrophe.
\<close>

definition none_not_callable :: exn where
  "none_not_callable = Exception ([39] @ lit ''NoneType'' @ [39] @ lit '' object is not callable'')"

definition none_no_generate :: exn where
  "none_no_generate = Exception ([39] @ lit ''NoneType'' @ [39] @ lit '' object has no attribute '' @
                [39] @ lit ''generate'' @ [39])"

definition index_error :: exn where
  "index_error = Exception (lit ''index 0 is out of bounds for dimension 0 with size 0'')"

definition run_generation ::
  "world \<Rightarrow> model_state \<Rightarrow> GenerateJokeRequest \<Rightarrow> (exn + pystr) \<times> event list" where
  "run_generation w s request =
     (let prompt = build_prompt (GenerateJokeRequest.topic request) in
      case tokenizer s of
        None \<Rightarrow> (Inl none_not_callable, [])
      | Some tok \<Rightarrow>
         (case tokenize w tok prompt of
            Inl e \<Rightarrow> (Inl e, [Tokenize prompt])
          | Inr inputs0 \<Rightarrow>
             (let dev = (if cuda_is_available w then lit ''cuda'' else lit ''cpu'') in
              case to_device w inputs0 dev of
                Inl e \<Rightarrow> (Inl e, [Tokenize prompt, ToDevice dev])
              | Inr inputs \<Rightarrow>
                 (case model s of
                    None \<Rightarrow> (Inl none_no_generate, [Tokenize prompt, ToDevice dev])
                  | Some m \<Rightarrow>
                     (let kw = generation_kwargs request tok in
                      case generate w m inputs kw of
                        Inl e \<Rightarrow> (Inl e, [Tokenize prompt, ToDevice dev, Generate kw])
                      | Inr outputs \<Rightarrow>
                         (case outputs of
                            [] \<Rightarrow> (Inl index_error, [Tokenize prompt, ToDevice dev, Generate kw])
                          | out0 # _ \<Rightarrow>
                             (case decode w tok out0 of
                                Inl e \<Rightarrow>
                                  (Inl e, [Tokenize prompt, ToDevice dev, Generate kw, Decode out0])
                              | Inr generated_text \<Rightarrow>
                                  (Inr generated_text,
                                   [Tokenize prompt, ToDevice dev, Generate kw, Decode out0]))))))))"

definition generate_joke ::
  "world \<Rightarrow> model_state \<Rightarrow> GenerateJokeRequest \<Rightarrow>
     (HTTPException + JokeResponse) \<times> model_state \<times> event list" where
  "generate_joke w s request =
     (if \<not> model_loaded s then
        (Inl \<lparr>status_code = 400, detail = lit ''Model not loaded. Call /load-model first.''\<rparr>,
         s, [])
      else
        (case run_generation w s request of
           (Inl e, evs) \<Rightarrow>
             (Inl \<lparr>status_code = 500, detail = lit ''Failed to generate joke: '' @ str_exn e\<rparr>,
              s, evs @ [Print (lit ''Error generating joke: '' @ str_exn e)])
         | (Inr generated_text, evs) \<Rightarrow>
             (Inr \<lparr>joke = joke_or_default (default_if_short (truncate_joke
                            (remove_prompt generated_text
                               (build_prompt (GenerateJokeRequest.topic request))))),
                   topic = (if GenerateJokeRequest.topic request \<noteq> []
                            then GenerateJokeRequest.topic request else lit ''general'')\<rparr>,
              s, evs)))"

section \<open>The state invariant\<close>

text \<open>The flag is set exactly when both handles are present.\<close>

definition state_invariant :: "model_state \<Rightarrow> bool" where
  "state_invariant s \<longleftrightarrow> (model_loaded s \<longleftrightarrow> model s \<noteq> None \<and> tokenizer s \<noteq> None)"

section \<open>Test fixtures\<close>

text \<open>
  A toolkit in which every call succeeds and decoding yields a given text, one whose
  artifact fetch fails, and the state the first one leaves after a load.
\<close>

definition demo_tokenizer :: py_tokenizer where
  "demo_tokenizer =
     \<lparr>tok_handle = 1, pad_token = None, eos_token = Some (lit ''<eos>''),
      eos_token_id = Some 7\<rparr>"

definition demo_world :: "pystr \<Rightarrow> world" where
  "demo_world text =
     \<lparr>cuda_is_available = False,
      tokenizer_from_pretrained = (\<lambda>name. Inr demo_tokenizer),
      model_from_pretrained = (\<lambda>name. Inr (Model 1)),
      format_exc = str_exn,
      tokenize = (\<lambda>tok prompt. Inr (Encoding 1)),
      to_device = (\<lambda>enc dev. Inr enc),
      generate = (\<lambda>m enc kw. Inr [[1, 2, 3]]),
      decode = (\<lambda>tok ids. Inr text)\<rparr>"

definition offline_world :: world where
  "offline_world =
     (demo_world [])\<lparr>tokenizer_from_pretrained := (\<lambda>name. Inl (Exception (lit ''offline'')))\<rparr>"

definition loaded_state :: model_state where
  "loaded_state =
     \<lparr>model = Some (Model 1),
      tokenizer = Some (demo_tokenizer\<lparr>pad_token := Some (lit ''<eos>'')\<rparr>),
      model_loaded = True\<rparr>"

definition cats_request :: GenerateJokeRequest where
  "cats_request =
     \<lparr>GenerateJokeRequest.topic = lit ''cats'', max_length = 100,
      GenerateJokeRequest.temperature = 0.8\<rparr>"

definition general_request :: GenerateJokeRequest where
  "general_request =
     \<lparr>GenerateJokeRequest.topic = [], max_length = 20,
      GenerateJokeRequest.temperature = 0.8\<rparr>"

section \<open>Auxiliary facts\<close>

lemmas fixture_defs = demo_world_def demo_tokenizer_def offline_world_def loaded_state_def
  cats_request_def general_request_def initial_state_def

subsection \<open>Successful runs of \<open>generate_joke\<close>\<close>

lemma run_generation_Inr:
  assumes "run_generation w s request = (Inr text, tr)"
  shows "\<exists>tok m inputs0 inputs out0 rest dev.
           tokenizer s = Some tok \<and> model s = Some m \<and>
           dev = (if cuda_is_available w then lit ''cuda'' else lit ''cpu'') \<and>
           tokenize w tok (build_prompt (GenerateJokeRequest.topic request)) = Inr inputs0 \<and>
           to_device w inputs0 dev = Inr inputs \<and>
           generate w m inputs (generation_kwargs request tok) = Inr (out0 # rest) \<and>
           decode w tok out0 = Inr text \<and>
           tr = [Tokenize (build_prompt (GenerateJokeRequest.topic request)), ToDevice dev,
                 Generate (generation_kwargs request tok), Decode out0]"
  using assms unfolding run_generation_def Let_def
  by (auto split: option.splits sum.splits list.splits if_splits)

lemma generate_joke_Inr:
  assumes "generate_joke w s request = (Inr resp, s', tr)"
  shows "model_loaded s \<and> s' = s \<and>
         (\<exists>text. run_generation w s request = (Inr text, tr) \<and>
            joke resp = joke_or_default (default_if_short (truncate_joke
                          (remove_prompt text (build_prompt (GenerateJokeRequest.topic request))))) \<and>
            JokeResponse.topic resp =
              (if GenerateJokeRequest.topic request \<noteq> [] then GenerateJokeRequest.topic request
               else lit ''general''))"
  using assms unfolding generate_joke_def
  by (auto split: if_splits prod.splits sum.splits)

subsection \<open>Lengths after post-processing\<close>

lemma length_fallback_joke: "length fallback_joke = 66"
  by (simp add: fallback_joke_def lit_def)

lemma length_dots: "length (lit ''...'') = 3"
  by (simp add: lit_def)

lemma length_truncate_joke:
  "length (truncate_joke j) = (if 500 < length j then 503 else length j)"
  by (simp add: truncate_joke_def length_dots)

lemma length_default_if_short:
  "length (default_if_short j) = (if length j < 10 then 66 else length j)"
  by (simp add: default_if_short_def length_fallback_joke)

lemma joke_or_default_id: "j \<noteq> [] \<Longrightarrow> joke_or_default j = j"
  by (simp add: joke_or_default_def)

lemma default_if_short_nonempty: "default_if_short j \<noteq> []"
  using length_default_if_short [of j] by (auto split: if_splits)

subsection \<open>Evaluating the fixtures\<close>

lemma replace_py_absent:
  "old \<noteq> [] \<Longrightarrow> hd old \<notin> set s \<Longrightarrow> replace_py s old new = s"
proof (induction s)
  case Nil
  then show ?case by simp
next
  case (Cons c cs)
  then have "\<not> prefix old (c # cs)"
    by (cases old) auto
  with Cons show ?case by simp
qed

lemma hd_build_prompt: "hd (build_prompt t) = 72" "build_prompt t \<noteq> []"
  by (simp_all add: build_prompt_def lit_def)

lemma strip_replicate: "\<not> is_space c \<Longrightarrow> strip (replicate n c) = replicate n c"
  by (simp add: strip_def dropWhile_replicate)

lemma remove_prompt_replicate:
  "remove_prompt (replicate n 97) (build_prompt t) = replicate n 97"
proof -
  have "replace_py (replicate n 97) (build_prompt t) [] = replicate n 97"
    by (rule replace_py_absent) (simp_all add: hd_build_prompt)
  then show ?thesis
    by (simp add: remove_prompt_def strip_replicate is_space_def)
qed

lemma run_demo:
  "run_generation (demo_world text) loaded_state cats_request =
     (Inr text, [Tokenize (build_prompt (lit ''cats'')), ToDevice (lit ''cpu''),
                 Generate (generation_kwargs cats_request
                    (demo_tokenizer\<lparr>pad_token := Some (lit ''<eos>'')\<rparr>)), Decode [1, 2, 3]])"
  by (simp add: run_generation_def fixture_defs)

section \<open>The precondition of \<open>generate_joke\<close>\<close>

text \<open>
  C1. Whatever the request and whatever the toolkit would answer, \<open>generate_joke\<close> on a
  state whose \<open>model_loaded\<close> flag is false raises the HTTP 400 error with the detail
  "Model not loaded. Call /load-model first.", calls nothing of the toolkit (the list of
  effects is empty, so no generation is attempted) and leaves the state as it was.
\<close>

theorem generate_joke_requires_loaded:
  "\<not> model_loaded s \<Longrightarrow>
   generate_joke w s request =
     (Inl \<lparr>status_code = 400, detail = lit ''Model not loaded. Call /load-model first.''\<rparr>,
      s, [])"
  by (simp add: generate_joke_def)

theorem generate_joke_requires_loaded_witness:
  "\<not> model_loaded initial_state \<and>
   generate_joke (demo_world (lit ''never decoded'')) initial_state cats_request =
     (Inl \<lparr>status_code = 400, detail = lit ''Model not loaded. Call /load-model first.''\<rparr>,
      initial_state, [])"
proof -
  have h: "\<not> model_loaded initial_state"
    by (simp add: initial_state_def)
  show ?thesis
    using h generate_joke_requires_loaded [OF h, of "demo_world (lit ''never decoded'')" cats_request]
    by simp
qed

section \<open>\<open>load_model\<close>\<close>

text \<open>
  C2. \<open>load_model\<close> is idempotent. On a state whose flag is already true it returns the
  "Model already loaded" answer with no effect at all (no fetch, no error) and the same
  state; and after any call that returned normally, a further call, whatever the toolkit
  would then answer, is such a no-op.
\<close>

theorem load_model_idempotent:
  "(model_loaded s \<longrightarrow>
      load_model w s =
        (Inr [(''message'', Str (lit ''Model already loaded'')), (''model_name'', Str MODEL_NAME)],
         s, [])) \<and>
   (load_model w s = (Inr r, s', tr) \<longrightarrow>
      load_model w' s' =
        (Inr [(''message'', Str (lit ''Model already loaded'')), (''model_name'', Str MODEL_NAME)],
         s', []))"
proof -
  have loaded: "model_loaded s'" if "load_model w s = (Inr r, s', tr)"
    using that unfolding load_model_def load_failed_def
    by (auto split: if_splits sum.splits)
  show ?thesis
    using loaded by (simp add: load_model_def)
qed

theorem load_model_idempotent_witness:
  "model_loaded loaded_state \<and>
   load_model (demo_world []) initial_state =
     (Inr [(''message'', Str (lit ''Model loaded successfully'')),
           (''model_name'', Str MODEL_NAME), (''device'', Str (lit ''cpu''))],
      loaded_state,
      load_prints (demo_world []) @
        [FetchTokenizer MODEL_NAME, FetchModel MODEL_NAME,
         Print (lit ''Model loaded successfully!'')]) \<and>
   load_model offline_world loaded_state =
     (Inr [(''message'', Str (lit ''Model already loaded'')), (''model_name'', Str MODEL_NAME)],
      loaded_state, [])"
proof -
  have first: "load_model (demo_world []) initial_state =
     (Inr [(''message'', Str (lit ''Model loaded successfully'')),
           (''model_name'', Str MODEL_NAME), (''device'', Str (lit ''cpu''))],
      loaded_state,
      load_prints (demo_world []) @
        [FetchTokenizer MODEL_NAME, FetchModel MODEL_NAME,
         Print (lit ''Model loaded successfully!'')])"
    by (simp add: load_model_def fixture_defs)
  have flag: "model_loaded loaded_state"
    by (simp add: loaded_state_def)
  from load_model_idempotent [of initial_state "demo_world []" _ loaded_state _ offline_world] first
  have "load_model offline_world loaded_state =
     (Inr [(''message'', Str (lit ''Model already loaded'')), (''model_name'', Str MODEL_NAME)],
      loaded_state, [])"
    by blast
  with first flag show ?thesis by blast
qed

text \<open>
  C3. \<open>load_model\<close> is atomic on failure. From an unloaded state, when fetching the
  tokenizer raises, or the tokenizer is fetched and fetching the model raises,
  \<open>load_model\<close> raises the HTTP 500 error whose detail is "Failed to load model: "
  followed by the text of the exception, and the state is exactly the one before the call.
  A later call from that state in which both fetches succeed loads the model.
\<close>

theorem load_model_failure_atomic:
  assumes "\<not> model_loaded s"
    and "tokenizer_from_pretrained w MODEL_NAME = Inl e \<or>
         (\<exists>t. tokenizer_from_pretrained w MODEL_NAME = Inr t \<and>
              model_from_pretrained w MODEL_NAME = Inl e)"
  shows "(\<exists>tr. load_model w s =
            (Inl \<lparr>status_code = 500, detail = lit ''Failed to load model: '' @ str_exn e\<rparr>,
             s, tr)) \<and>
         (tokenizer_from_pretrained w' MODEL_NAME = Inr t' \<and>
          model_from_pretrained w' MODEL_NAME = Inr m' \<longrightarrow>
            (\<exists>r s2 tr2. load_model w' (fst (snd (load_model w s))) = (Inr r, s2, tr2) \<and>
               model s2 = Some m' \<and> tokenizer s2 \<noteq> None \<and> model_loaded s2))"
proof -
  have fail: "\<exists>tr. load_model w s =
            (Inl \<lparr>status_code = 500, detail = lit ''Failed to load model: '' @ str_exn e\<rparr>,
             s, tr)"
    using assms unfolding load_model_def load_failed_def
    by (auto simp: Let_def)
  then have same: "fst (snd (load_model w s)) = s"
    by auto
  have retry: "\<exists>r s2 tr2. load_model w' s = (Inr r, s2, tr2) \<and>
               model s2 = Some m' \<and> tokenizer s2 \<noteq> None \<and> model_loaded s2"
    if "tokenizer_from_pretrained w' MODEL_NAME = Inr t'"
      and "model_from_pretrained w' MODEL_NAME = Inr m'"
    using that assms(1) unfolding load_model_def
    by (simp add: Let_def)
  from fail same retry show ?thesis
    by simp
qed

theorem load_model_failure_atomic_witness:
  "\<not> model_loaded initial_state \<and>
   tokenizer_from_pretrained offline_world MODEL_NAME = Inl (Exception (lit ''offline'')) \<and>
   (\<exists>tr. load_model offline_world initial_state =
      (Inl \<lparr>status_code = 500, detail = lit ''Failed to load model: offline''\<rparr>,
       initial_state, tr)) \<and>
   (\<exists>r s2 tr2. load_model (demo_world []) (fst (snd (load_model offline_world initial_state))) =
                  (Inr r, s2, tr2) \<and>
        model s2 = Some (Model 1) \<and> tokenizer s2 \<noteq> None \<and> model_loaded s2)"
proof -
  have h1: "\<not> model_loaded initial_state"
    by (simp add: initial_state_def)
  have h2: "tokenizer_from_pretrained offline_world MODEL_NAME = Inl (Exception (lit ''offline''))"
    by (simp add: fixture_defs)
  have h3: "tokenizer_from_pretrained (demo_world []) MODEL_NAME = Inr demo_tokenizer \<and>
            model_from_pretrained (demo_world []) MODEL_NAME = Inr (Model 1)"
    by (simp add: fixture_defs)
  have eq: "lit ''Failed to load model: '' @ str_exn (Exception (lit ''offline'')) =
            lit ''Failed to load model: offline''"
    by (simp add: lit_def)
  from load_model_failure_atomic [OF h1 disjI1, OF h2, of "demo_world []" demo_tokenizer "Model 1"]
    h1 h2 h3 eq
  show ?thesis by simp
qed

section \<open>\<open>generate_joke\<close>\<close>

text \<open>
  C4. Whenever \<open>generate_joke\<close> reaches the generation call, the \<open>max_new_tokens\<close> it
  passes is \<open>min(request.max_length, 50)\<close>: exactly 50 for a \<open>max_length\<close> of 50 or more,
  and \<open>max_length\<close> itself below 50.
\<close>

theorem token_budget_clamped:
  "Generate kw \<in> set (snd (snd (generate_joke w s request))) \<Longrightarrow>
   max_new_tokens kw = min (max_length request) 50 \<and>
   (50 \<le> max_length request \<longrightarrow> max_new_tokens kw = 50) \<and>
   (max_length request < 50 \<longrightarrow> max_new_tokens kw = max_length request)"
proof -
  assume ev: "Generate kw \<in> set (snd (snd (generate_joke w s request)))"
  have "\<exists>tok. kw = generation_kwargs request tok"
    using ev unfolding generate_joke_def run_generation_def Let_def
    by (auto split: if_splits option.splits sum.splits list.splits)
  then show ?thesis
    by (auto simp: generation_kwargs_def)
qed

theorem token_budget_clamped_witness:
  "Generate (generation_kwargs cats_request (demo_tokenizer\<lparr>pad_token := Some (lit ''<eos>'')\<rparr>))
     \<in> set (snd (snd (generate_joke (demo_world (lit ''ha'')) loaded_state cats_request))) \<and>
   max_length cats_request = 100 \<and>
   max_new_tokens (generation_kwargs cats_request
                     (demo_tokenizer\<lparr>pad_token := Some (lit ''<eos>'')\<rparr>)) = 50"
proof -
  have ev: "Generate (generation_kwargs cats_request
                        (demo_tokenizer\<lparr>pad_token := Some (lit ''<eos>'')\<rparr>))
              \<in> set (snd (snd (generate_joke (demo_world (lit ''ha'')) loaded_state cats_request)))"
    by (simp add: generate_joke_def run_demo) (simp add: loaded_state_def)
  have len: "max_length cats_request = 100"
    by (simp add: cats_request_def)
  from token_budget_clamped [OF ev] ev len show ?thesis
    by simp
qed

text \<open>
  C5. Every joke that \<open>generate_joke\<close> returns has at most 503 code points, whatever
  text the toolkit decoded; and when the decoded text, with the prompt removed and the
  whitespace trimmed, is longer than 500, the joke is its first 500 code points followed
  by "...".
\<close>

theorem joke_length_bound:
  "generate_joke w s request = (Inr resp, s', tr) \<Longrightarrow>
   length (joke resp) \<le> 503 \<and>
   (\<exists>text. run_generation w s request = (Inr text, tr) \<and>
      (500 < length (remove_prompt text (build_prompt (GenerateJokeRequest.topic request))) \<longrightarrow>
         joke resp =
           take 500 (remove_prompt text (build_prompt (GenerateJokeRequest.topic request))) @
           lit ''...''))"
proof -
  assume ok: "generate_joke w s request = (Inr resp, s', tr)"
  define prompt where "prompt = build_prompt (GenerateJokeRequest.topic request)"
  from generate_joke_Inr [OF ok] obtain g where
    run: "run_generation w s request = (Inr g, tr)" and
    j: "joke resp = joke_or_default (default_if_short (truncate_joke (remove_prompt g prompt)))"
    unfolding prompt_def by blast
  let ?c = "remove_prompt g prompt"
  have j': "joke resp = default_if_short (truncate_joke ?c)"
    using j by (simp add: joke_or_default_id default_if_short_nonempty)
  have bound: "length (joke resp) \<le> 503"
    unfolding j' by (simp add: length_default_if_short length_truncate_joke)
  have long: "joke resp = take 500 ?c @ lit ''...''" if "500 < length ?c"
    unfolding j' using that
    by (simp add: default_if_short_def truncate_joke_def length_dots)
  from run bound long show ?thesis
    unfolding prompt_def by blast
qed

theorem joke_length_bound_witness:
  "generate_joke (demo_world (replicate 501 97)) loaded_state cats_request =
     (Inr \<lparr>joke = replicate 500 97 @ lit ''...'', topic = lit ''cats''\<rparr>, loaded_state,
      snd (run_generation (demo_world (replicate 501 97)) loaded_state cats_request)) \<and>
   500 < length (remove_prompt (replicate 501 97)
                   (build_prompt (GenerateJokeRequest.topic cats_request))) \<and>
   length (replicate 500 (97::nat) @ lit ''...'') \<le> 503"
proof -
  have rp: "remove_prompt (replicate 501 97) (build_prompt t) = replicate 501 97" for t
    by (rule remove_prompt_replicate)
  have ok: "generate_joke (demo_world (replicate 501 97)) loaded_state cats_request =
     (Inr \<lparr>joke = replicate 500 97 @ lit ''...'', topic = lit ''cats''\<rparr>, loaded_state,
      snd (run_generation (demo_world (replicate 501 97)) loaded_state cats_request))"
    by (simp add: generate_joke_def run_demo rp truncate_joke_def default_if_short_def
        joke_or_default_def) (simp add: fixture_defs lit_def)
  from joke_length_bound [OF ok] ok rp show ?thesis
    by simp
qed

text \<open>
  C6. On a loaded state, whatever text the toolkit decoded: when that text, with the
  prompt removed and the whitespace trimmed, has fewer than 10 code points (the empty
  text included), \<open>generate_joke\<close> returns exactly the fixed joke
  "Why don't scientists trust atoms? Because they make up everything!".
\<close>

theorem short_output_gets_fallback:
  "model_loaded s \<Longrightarrow> run_generation w s request = (Inr g, tr) \<Longrightarrow>
   length (remove_prompt g (build_prompt (GenerateJokeRequest.topic request))) < 10 \<Longrightarrow>
   generate_joke w s request =
     (Inr \<lparr>joke = lit ''Why don't scientists trust atoms? Because they make up everything!'',
           topic = (if GenerateJokeRequest.topic request \<noteq> []
                    then GenerateJokeRequest.topic request else lit ''general'')\<rparr>,
      s, tr)"
  by (simp add: generate_joke_def truncate_joke_def default_if_short_def joke_or_default_def
      fallback_joke_def lit_def)

theorem short_output_gets_fallback_witness:
  "model_loaded loaded_state \<and>
   remove_prompt (build_prompt (lit ''cats'') @ lit '' ha \<newline>'') (build_prompt (lit ''cats'')) =
     lit ''ha'' \<and>
   generate_joke (demo_world (build_prompt (lit ''cats'') @ lit '' ha \<newline>'')) loaded_state
       cats_request =
     (Inr \<lparr>joke = lit ''Why don't scientists trust atoms? Because they make up everything!'',
           topic = lit ''cats''\<rparr>,
      loaded_state,
      [Tokenize (build_prompt (lit ''cats'')), ToDevice (lit ''cpu''),
       Generate (generation_kwargs cats_request
                   (demo_tokenizer\<lparr>pad_token := Some (lit ''<eos>'')\<rparr>)), Decode [1, 2, 3]])"
proof -
  have h1: "model_loaded loaded_state"
    by (simp add: loaded_state_def)
  have t: "GenerateJokeRequest.topic cats_request = lit ''cats''"
    by (simp add: cats_request_def)
  have h3: "remove_prompt (build_prompt (lit ''cats'') @ lit '' ha \<newline>'')
              (build_prompt (lit ''cats'')) = lit ''ha''"
    by (simp add: remove_prompt_def build_prompt_def lit_def strip_def is_space_def)
  have h4: "length (remove_prompt (build_prompt (lit ''cats'') @ lit '' ha \<newline>'')
              (build_prompt (GenerateJokeRequest.topic cats_request))) < 10"
    unfolding t h3 by (simp add: lit_def)
  have ne: "lit ''cats'' \<noteq> []"
    by (simp add: lit_def)
  from short_output_gets_fallback [OF h1 run_demo h4] h1 h3 t ne show ?thesis
    by simp
qed

text \<open>
  C7. For every call of \<open>generate_joke\<close> that returns a response: with a non-empty
  topic the response echoes the topic and the one prompt given to the tokenizer is
  "Here's a funny joke about ", the topic, ":" and a newline, which contains "about "
  followed by the topic; with an empty topic the response's topic is "general" and the
  prompt is "Here's a funny joke:" and a newline.
\<close>

theorem topic_echo_and_prompt:
  "generate_joke w s request = (Inr resp, s', tr) \<Longrightarrow>
   (GenerateJokeRequest.topic request \<noteq> [] \<longrightarrow>
      JokeResponse.topic resp = GenerateJokeRequest.topic request \<and>
      (\<forall>p. Tokenize p \<in> set tr \<longleftrightarrow>
           p = lit ''Here's a funny joke about '' @ GenerateJokeRequest.topic request @
               lit '':\<newline>'') \<and>
      sublist (lit ''about '' @ GenerateJokeRequest.topic request)
        (build_prompt (GenerateJokeRequest.topic request))) \<and>
   (GenerateJokeRequest.topic request = [] \<longrightarrow>
      JokeResponse.topic resp = lit ''general'' \<and>
      (\<forall>p. Tokenize p \<in> set tr \<longleftrightarrow> p = lit ''Here's a funny joke:\<newline>''))"
proof -
  assume ok: "generate_joke w s request = (Inr resp, s', tr)"
  let ?t = "GenerateJokeRequest.topic request"
  from generate_joke_Inr [OF ok] obtain g where
    run: "run_generation w s request = (Inr g, tr)" and
    echo: "JokeResponse.topic resp = (if ?t \<noteq> [] then ?t else lit ''general'')"
    by blast
  from run_generation_Inr [OF run] have tok: "\<And>p. Tokenize p \<in> set tr \<longleftrightarrow> p = build_prompt ?t"
    by auto
  have sub: "sublist (lit ''about '' @ ?t) (build_prompt ?t)" if "?t \<noteq> []"
  proof -
    have "build_prompt ?t = lit ''Here's a funny joke '' @ (lit ''about '' @ ?t) @ lit '':\<newline>''"
      using that by (simp add: build_prompt_def lit_def)
    then show ?thesis
      by (simp only: sublist_appendI)
  qed
  show ?thesis
    using echo tok sub by (simp add: build_prompt_def)
qed

theorem topic_echo_and_prompt_witness:
  "fst (generate_joke (demo_world (replicate 20 97)) loaded_state cats_request) =
     Inr \<lparr>joke = replicate 20 97, topic = lit ''cats''\<rparr> \<and>
   Tokenize (lit ''Here's a funny joke about cats:\<newline>'')
     \<in> set (snd (snd (generate_joke (demo_world (replicate 20 97)) loaded_state cats_request))) \<and>
   sublist (lit ''about cats'') (build_prompt (lit ''cats'')) \<and>
   fst (generate_joke (demo_world (replicate 20 97)) loaded_state general_request) =
     Inr \<lparr>joke = replicate 20 97, topic = lit ''general''\<rparr> \<and>
   Tokenize (lit ''Here's a funny joke:\<newline>'')
     \<in> set (snd (snd (generate_joke (demo_world (replicate 20 97)) loaded_state general_request)))"
proof -
  let ?w = "demo_world (replicate 20 97)"
  have run: "run_generation ?w loaded_state general_request =
     (Inr (replicate 20 97), [Tokenize (build_prompt []), ToDevice (lit ''cpu''),
        Generate (generation_kwargs general_request
                    (demo_tokenizer\<lparr>pad_token := Some (lit ''<eos>'')\<rparr>)), Decode [1, 2, 3]])"
    by (simp add: run_generation_def fixture_defs general_request_def)
  have t1: "GenerateJokeRequest.topic cats_request = lit ''cats''"
    and t2: "GenerateJokeRequest.topic general_request = []"
    and ne: "lit ''cats'' \<noteq> []"
    and ld: "model_loaded loaded_state"
    by (simp_all add: cats_request_def general_request_def lit_def loaded_state_def)
  have j: "joke_or_default (default_if_short (truncate_joke (replicate 20 97))) = replicate 20 97"
    by (simp add: truncate_joke_def default_if_short_def joke_or_default_def)
  have ok1: "generate_joke ?w loaded_state cats_request =
     (Inr \<lparr>joke = replicate 20 97, topic = lit ''cats''\<rparr>, loaded_state,
      snd (snd (generate_joke ?w loaded_state cats_request)))"
    by (simp add: generate_joke_def run_demo remove_prompt_replicate j t1 ne ld)
  have ok2: "generate_joke ?w loaded_state general_request =
     (Inr \<lparr>joke = replicate 20 97, topic = lit ''general''\<rparr>, loaded_state,
      snd (snd (generate_joke ?w loaded_state general_request)))"
    by (simp add: generate_joke_def run remove_prompt_replicate j t2 ld)
  have cat: "lit ''Here's a funny joke about '' @ lit ''cats'' @ lit '':\<newline>'' =
             lit ''Here's a funny joke about cats:\<newline>''"
       "lit ''about '' @ lit ''cats'' = lit ''about cats''"
    by (simp_all add: lit_def)
  from topic_echo_and_prompt [OF ok1] topic_echo_and_prompt [OF ok2] ok1 ok2 t1 t2 ne cat
  show ?thesis
    by (metis fst_conv)
qed

text \<open>
  C10. Every joke that \<open>generate_joke\<close> returns is non-empty, has at least 10 code
  points, and has at most 500 or exactly 503 of them. Truncation yields 503 code points,
  so it never falls below the threshold of the fallback, and the text that reaches the
  guard of line 143 is never empty: the guard returns it unchanged.
\<close>

theorem joke_length_values:
  "(generate_joke w s request = (Inr resp, s', tr) \<longrightarrow>
      joke resp \<noteq> [] \<and> 10 \<le> length (joke resp) \<and>
      (length (joke resp) \<le> 500 \<or> length (joke resp) = 503)) \<and>
   (500 < length j \<longrightarrow> 10 \<le> length (truncate_joke j)) \<and>
   default_if_short (truncate_joke j) \<noteq> [] \<and>
   joke_or_default (default_if_short (truncate_joke j)) = default_if_short (truncate_joke j)"
proof -
  have guard: "joke_or_default (default_if_short (truncate_joke k)) =
               default_if_short (truncate_joke k)" for k
    by (simp add: joke_or_default_id default_if_short_nonempty)
  have len: "10 \<le> length (default_if_short (truncate_joke k)) \<and>
             (length (default_if_short (truncate_joke k)) \<le> 500 \<or>
              length (default_if_short (truncate_joke k)) = 503)" for k
    by (simp add: length_default_if_short length_truncate_joke)
  have run: "joke resp \<noteq> [] \<and> 10 \<le> length (joke resp) \<and>
      (length (joke resp) \<le> 500 \<or> length (joke resp) = 503)"
    if ok: "generate_joke w s request = (Inr resp, s', tr)"
  proof -
    from generate_joke_Inr [OF ok] obtain g where
      "joke resp = joke_or_default (default_if_short (truncate_joke
         (remove_prompt g (build_prompt (GenerateJokeRequest.topic request)))))"
      by blast
    then have j: "joke resp = default_if_short (truncate_joke
         (remove_prompt g (build_prompt (GenerateJokeRequest.topic request))))"
      by (simp only: guard)
    from len [of "remove_prompt g (build_prompt (GenerateJokeRequest.topic request))"]
    show ?thesis
      unfolding j by auto
  qed
  have trunc: "10 \<le> length (truncate_joke j)" if "500 < length j"
    using that by (simp add: length_truncate_joke)
  from run trunc guard [of j] default_if_short_nonempty [of "truncate_joke j"]
  show ?thesis by blast
qed

theorem joke_length_values_witness:
  "fst (generate_joke (demo_world (replicate 502 97)) loaded_state cats_request) =
     Inr \<lparr>joke = replicate 500 97 @ lit ''...'', topic = lit ''cats''\<rparr> \<and>
   length (replicate 500 (97::nat) @ lit ''...'') = 503 \<and>
   500 < length (replicate 502 (97::nat)) \<and>
   truncate_joke (replicate 502 97) = replicate 500 97 @ lit ''...''"
proof -
  let ?w = "demo_world (replicate 502 97)"
  have tr: "truncate_joke (replicate 502 97) = replicate 500 97 @ lit ''...''"
    by (simp add: truncate_joke_def)
  have ok: "generate_joke ?w loaded_state cats_request =
     (Inr \<lparr>joke = replicate 500 97 @ lit ''...'', topic = lit ''cats''\<rparr>, loaded_state,
      snd (snd (generate_joke ?w loaded_state cats_request)))"
    by (simp add: generate_joke_def run_demo remove_prompt_replicate truncate_joke_def
        default_if_short_def joke_or_default_def) (simp add: fixture_defs lit_def)
  from ok have f: "fst (generate_joke ?w loaded_state cats_request) =
      Inr \<lparr>joke = replicate 500 97 @ lit ''...'', topic = lit ''cats''\<rparr>"
    by (metis fst_conv)
  from joke_length_values [of ?w loaded_state cats_request _ loaded_state _ "replicate 502 97"]
    ok f tr
  show ?thesis
    by (simp add: length_dots)
qed

section \<open>The state invariant and the shape of the answers\<close>

text \<open>
  C8. The invariant, that \<open>model_loaded\<close> is true exactly when the model handle and
  the tokenizer handle are both present, holds in the initial state and is preserved by
  \<open>load_model\<close> (on each of its branches, the failing ones included), by
  \<open>generate_joke\<close> and by \<open>read_root\<close>.
\<close>

theorem state_invariant_preserved:
  "state_invariant initial_state \<and>
   (state_invariant s \<longrightarrow> state_invariant (fst (snd (load_model w s)))) \<and>
   (state_invariant s \<longrightarrow> state_invariant (fst (snd (generate_joke w s request)))) \<and>
   (state_invariant s \<longrightarrow> state_invariant (snd (read_root s)))"
proof -
  have init: "state_invariant initial_state"
    by (simp add: state_invariant_def initial_state_def)
  have load: "state_invariant (fst (snd (load_model w s)))" if "state_invariant s"
    using that unfolding load_model_def load_failed_def state_invariant_def
    by (simp add: Let_def split: sum.splits)
  have gen: "fst (snd (generate_joke w s request)) = s"
    unfolding generate_joke_def by (simp split: prod.splits sum.splits)
  have root: "snd (read_root s) = s"
    by (simp add: read_root_def)
  from init load gen root show ?thesis
    by simp
qed

theorem state_invariant_preserved_witness:
  "state_invariant initial_state \<and>
   fst (snd (load_model (demo_world []) initial_state)) = loaded_state \<and>
   state_invariant loaded_state \<and>
   state_invariant (fst (snd (load_model offline_world initial_state))) \<and>
   state_invariant (fst (snd (load_model offline_world loaded_state))) \<and>
   state_invariant (fst (snd (generate_joke (demo_world []) loaded_state cats_request))) \<and>
   state_invariant (snd (read_root loaded_state))"
proof -
  have ld: "fst (snd (load_model (demo_world []) initial_state)) = loaded_state"
    by (simp add: load_model_def fixture_defs)
  have i0: "state_invariant initial_state"
    using state_invariant_preserved [of initial_state "demo_world []" cats_request] by blast
  have i1: "state_invariant loaded_state"
    using state_invariant_preserved [of initial_state "demo_world []" cats_request] ld by simp
  from i0 i1 ld
    state_invariant_preserved [of initial_state offline_world cats_request]
    state_invariant_preserved [of loaded_state offline_world cats_request]
    state_invariant_preserved [of loaded_state "demo_world []" cats_request]
  show ?thesis by blast
qed

text \<open>
  C9, as stated, fails: on an already loaded state \<open>load_model\<close> returns normally, and
  the dictionary it returns has no \<open>device\<close> key.
\<close>

theorem load_model_device_counterexample:
  "model_loaded loaded_state \<and>
   load_model (demo_world []) loaded_state =
     (Inr [(''message'', Str (lit ''Model already loaded'')), (''model_name'', Str MODEL_NAME)],
      loaded_state, []) \<and>
   map_of [(''message'', Str (lit ''Model already loaded'')), (''model_name'', Str MODEL_NAME)]
     ''device'' = None"
  by (simp add: load_model_def loaded_state_def)

text \<open>
  C9, amended. Every normal return of \<open>load_model\<close> is a dictionary with a
  \<open>message\<close> and the \<open>model_name\<close>. On a fresh load its keys are \<open>message\<close>,
  \<open>model_name\<close> and \<open>device\<close>, the device being "cuda" if the accelerator is available
  and "cpu" otherwise; on the already-loaded branch its keys are \<open>message\<close> and
  \<open>model_name\<close> only.
\<close>

theorem load_model_return_fields:
  "load_model w s = (Inr r, s', tr) \<Longrightarrow>
   (\<exists>msg. map_of r ''message'' = Some (Str msg)) \<and>
   map_of r ''model_name'' = Some (Str MODEL_NAME) \<and>
   (\<not> model_loaded s \<longrightarrow>
      map fst r = [''message'', ''model_name'', ''device''] \<and>
      map_of r ''device'' = Some (Str (if cuda_is_available w then lit ''cuda'' else lit ''cpu''))) \<and>
   (model_loaded s \<longrightarrow> map fst r = [''message'', ''model_name''])"
  unfolding load_model_def load_failed_def
  by (auto simp: Let_def split: if_splits sum.splits)

theorem load_model_return_fields_witness:
  "load_model (demo_world []) initial_state =
     (Inr [(''message'', Str (lit ''Model loaded successfully'')),
           (''model_name'', Str MODEL_NAME), (''device'', Str (lit ''cpu''))],
      loaded_state, snd (snd (load_model (demo_world []) initial_state))) \<and>
   \<not> model_loaded initial_state \<and> \<not> cuda_is_available (demo_world []) \<and>
   map_of [(''message'', Str (lit ''Model loaded successfully'')),
           (''model_name'', Str MODEL_NAME), (''device'', Str (lit ''cpu''))] ''device'' =
     Some (Str (lit ''cpu'')) \<and>
   load_model (demo_world []) loaded_state =
     (Inr [(''message'', Str (lit ''Model already loaded'')), (''model_name'', Str MODEL_NAME)],
      loaded_state, []) \<and>
   model_loaded loaded_state \<and>
   map fst [(''message'', Str (lit ''Model already loaded'')), (''model_name'', Str MODEL_NAME)] =
     [''message'', ''model_name'']"
proof -
  have fresh: "load_model (demo_world []) initial_state =
     (Inr [(''message'', Str (lit ''Model loaded successfully'')),
           (''model_name'', Str MODEL_NAME), (''device'', Str (lit ''cpu''))],
      loaded_state, snd (snd (load_model (demo_world []) initial_state)))"
    by (simp add: load_model_def fixture_defs)
  have again: "load_model (demo_world []) loaded_state =
     (Inr [(''message'', Str (lit ''Model already loaded'')), (''model_name'', Str MODEL_NAME)],
      loaded_state, [])"
    by (simp add: load_model_def loaded_state_def)
  have flags: "\<not> model_loaded initial_state" "\<not> cuda_is_available (demo_world [])"
      "model_loaded loaded_state"
    by (simp_all add: fixture_defs)
  from load_model_return_fields [OF fresh] load_model_return_fields [OF again] fresh again flags
  show ?thesis by simp
qed

end
